theory Spec2Isabelle
  imports Complex_Main
begin

section \<open>ksp-telemetry.py: data model\<close>

text \<open>
  The script is one straight-line module: it parses its arguments, loads a CSV file into
  a dictionary of columns, draws four or six charts and saves and/or shows the figure.
  It is modelled from the point where \<^verbatim>\<open>parser.parse_args()\<close> has returned the
  namespace \<^verbatim>\<open>args\<close>.

  Conventions of the model:
  \<^item> a Python \<^verbatim>\<open>float\<close> is a \<^typ>\<open>real\<close>; rounding, infinities and NaN of IEEE
    doubles are not represented;
  \<^item> the built-in \<^verbatim>\<open>float()\<close> applied to a cell is a parameter
    \<open>to_float :: string \<Rightarrow> real option\<close>, \<open>None\<close> standing for \<^verbatim>\<open>ValueError\<close>;
  \<^item> the telemetry file is given by its name and by the rows that \<^verbatim>\<open>csv.reader\<close>
    yields for it (a list of cells per line);
  \<^item> every call that acts on the outside world (printing, matplotlib, closing a file)
    is an event appended to a trace, in program order; library calls are assumed to return;
  \<^item> an exception is a value of \<open>py_error\<close>; one that no handler catches ends the run
    with \<open>Uncaught\<close>.
\<close>

datatype py_error = KeyError | IndexError | ValueError | StopIteration

datatype outcome = Exit nat | Uncaught py_error

datatype stream = Stdout | Stderr

datatype event =
    PrintUsage stream
  | Print stream string
  | CloseTelemetry
  | Figure nat nat
  | Suptitle string nat
  | Subplot nat nat nat
  | Plot "real list" "real list" "string option"
  | Title string
  | XLabel string
  | YLabel string
  | Grid
  | Legend string
  | SubplotsAdjust real real
  | Savefig string
  | CloseOut string
  | Show

text \<open>
  The namespace returned by \<^verbatim>\<open>parse_args\<close>. \<open>telemetry_name\<close> and
  \<open>telemetry_rows\<close> stand for the opened file \<^verbatim>\<open>args.telemetry\<close>; \<open>out\<close> is the
  name of the file opened for \<^verbatim>\<open>--out\<close>, \<open>None\<close> when the option was not passed.
\<close>

record args =
  telemetry_name :: string
  telemetry_rows :: "string list list"
  title :: "string option"
  verbose :: bool
  out :: "string option"
  no_view :: bool

type_synonym table = "string \<rightharpoonup> real list"

type_synonym step = "event list \<times> py_error option"

section \<open>The loader (lines 67 to 72)\<close>

text \<open>\<^verbatim>\<open>tuple(float(val) for val in line)\<close>: the first cell that does not parse raises.\<close>

fun parse_line :: "(string \<Rightarrow> 'a option) \<Rightarrow> string list \<Rightarrow> py_error + 'a list" where
  "parse_line to_float [] = Inr []"
| "parse_line to_float (val # rest) =
     (case to_float val of
        None \<Rightarrow> Inl ValueError
      | Some x \<Rightarrow>
          (case parse_line to_float rest of
             Inl e \<Rightarrow> Inl e
           | Inr xs \<Rightarrow> Inr (x # xs)))"

text \<open>\<^verbatim>\<open>raw_data = tuple(... for line in reader)\<close>\<close>

fun parse_lines :: "(string \<Rightarrow> 'a option) \<Rightarrow> string list list \<Rightarrow> py_error + 'a list list" where
  "parse_lines to_float [] = Inr []"
| "parse_lines to_float (line # rest) =
     (case parse_line to_float line of
        Inl e \<Rightarrow> Inl e
      | Inr r \<Rightarrow>
          (case parse_lines to_float rest of
             Inl e \<Rightarrow> Inl e
           | Inr rs \<Rightarrow> Inr (r # rs)))"

text \<open>\<^verbatim>\<open>tuple(row[idx] for row in raw_data)\<close>: a row with no cell at \<open>idx\<close> raises.\<close>

fun column :: "nat \<Rightarrow> 'a list list \<Rightarrow> py_error + 'a list" where
  "column idx [] = Inr []"
| "column idx (row # rest) =
     (if idx < length row then
        (case column idx rest of
           Inl e \<Rightarrow> Inl e
         | Inr xs \<Rightarrow> Inr (row ! idx # xs))
      else Inl IndexError)"

text \<open>
  The dictionary comprehension over \<^verbatim>\<open>enumerate(headers)\<close>: keys are stored in header
  order, so a name that occurs again replaces the earlier entry.
\<close>

fun build_table ::
  "nat \<Rightarrow> string list \<Rightarrow> 'a list list \<Rightarrow> (string \<rightharpoonup> 'a list) \<Rightarrow> py_error + (string \<rightharpoonup> 'a list)" where
  "build_table idx [] raw_data t = Inr t"
| "build_table idx (col # rest) raw_data t =
     (case column idx raw_data of
        Inl e \<Rightarrow> Inl e
      | Inr xs \<Rightarrow> build_table (Suc idx) rest raw_data (t(col \<mapsto> xs)))"

text \<open>\<^verbatim>\<open>headers = next(reader)\<close> raises \<^verbatim>\<open>StopIteration\<close> on a file with no line.\<close>

definition load ::
  "(string \<Rightarrow> 'a option) \<Rightarrow> string list list \<Rightarrow> py_error + (string \<rightharpoonup> 'a list)" where
  "load to_float reader =
     (case reader of
        [] \<Rightarrow> Inl StopIteration
      | headers # lines \<Rightarrow>
          (case parse_lines to_float lines of
             Inl e \<Rightarrow> Inl e
           | Inr raw_data \<Rightarrow> build_table 0 headers raw_data Map.empty))"

section \<open>Rendering (lines 75 to 139)\<close>

definition arrange_subplots :: "bool \<Rightarrow> nat \<times> nat" where
  "arrange_subplots v = (if v then (2, 3) else (2, 2))"

definition subplot :: "bool \<Rightarrow> nat \<Rightarrow> event" where
  "subplot v n = (case arrange_subplots v of (r, c) \<Rightarrow> Subplot r c n)"

text \<open>Sequencing: a step that raised stops everything after it.\<close>

fun then_do :: "step \<Rightarrow> step \<Rightarrow> step" where
  "then_do (es, Some e) nxt = (es, Some e)"
| "then_do (es, None) (fs, r) = (es @ fs, r)"

text \<open>\<^verbatim>\<open>telemetry_data[k]\<close>: a missing key raises \<^verbatim>\<open>KeyError\<close>.\<close>

definition with_col :: "table \<Rightarrow> string \<Rightarrow> (real list \<Rightarrow> step) \<Rightarrow> step" where
  "with_col t k body = (case t k of None \<Rightarrow> ([], Some KeyError) | Some xs \<Rightarrow> body xs)"

definition to_km :: "real list \<Rightarrow> real list" where
  "to_km xs = map (\<lambda>x. x / 1000) xs"

definition launch_profile :: "bool \<Rightarrow> table \<Rightarrow> step" where
  "launch_profile v t =
     then_do ([subplot v 1], None)
       (with_col t ''DownRange'' (\<lambda>down_range.
        with_col t ''AltitudeASL'' (\<lambda>altitude.
          ([Plot (to_km down_range) (to_km altitude) None,
            Title ''Launch Profile'',
            XLabel ''Distance downrange (km)'',
            YLabel ''Altitude ASL (km)'',
            Grid], None))))"

definition acceleration :: "bool \<Rightarrow> table \<Rightarrow> step" where
  "acceleration v t =
     then_do ([subplot v 2], None)
       (with_col t ''TimeSinceMark'' (\<lambda>time.
        with_col t ''Acceleration'' (\<lambda>acc.
          ([Plot time acc None,
            Title ''Acceleration'',
            XLabel ''MET (s)'',
            YLabel ''Acceleration (g)'',
            Grid], None))))"

definition orbital_velocity :: "bool \<Rightarrow> table \<Rightarrow> step" where
  "orbital_velocity v t =
     then_do ([subplot v 3], None)
       (with_col t ''TimeSinceMark'' (\<lambda>time.
        with_col t ''SpeedOrbital'' (\<lambda>speed.
          ([Plot time speed None,
            Title ''Orbital Velocity'',
            XLabel ''MET (s)'',
            YLabel ''Orbital velocity (m/s)'',
            Grid], None))))"

definition dynamic_pressure :: "bool \<Rightarrow> table \<Rightarrow> step" where
  "dynamic_pressure v t =
     then_do ([subplot v 4], None)
       (with_col t ''AltitudeASL'' (\<lambda>altitude.
        with_col t ''Q'' (\<lambda>q.
          ([Plot (to_km altitude) q None,
            Title ''Dynamic Pressure'',
            XLabel ''Altitude ASL (km)'',
            YLabel ''Q (Pa)'',
            Grid], None))))"

text \<open>The slice \<^verbatim>\<open>[3:]\<close> never raises; on fewer than three items it is empty.\<close>

definition angle_of_attack :: "bool \<Rightarrow> table \<Rightarrow> step" where
  "angle_of_attack v t =
     then_do ([subplot v 5], None)
       (with_col t ''TimeSinceMark'' (\<lambda>time.
        with_col t ''AoA'' (\<lambda>aoa.
          ([Plot (drop 3 time) (drop 3 aoa) None,
            Title ''Angle of Attack'',
            XLabel ''MET (s)'',
            YLabel ''AoA (deg)'',
            Grid], None))))"

text \<open>\<^verbatim>\<open>telemetry_data["SpeedOrbital"][0]\<close> on an empty tuple raises \<^verbatim>\<open>IndexError\<close>.\<close>

definition tan_vel :: "real list \<Rightarrow> py_error + real" where
  "tan_vel speed = (case speed of [] \<Rightarrow> Inl IndexError | x # rest \<Rightarrow> Inr x)"

text \<open>
  The list comprehension of lines 129 and 130 over \<^verbatim>\<open>enumerate(DeltaVExpended)\<close>,
  from index \<open>i\<close> on; \<^verbatim>\<open>SpeedOrbital[i]\<close> raises when the column is too short.
\<close>

fun dv_lost :: "nat \<Rightarrow> real list \<Rightarrow> real list \<Rightarrow> real \<Rightarrow> py_error + real list" where
  "dv_lost i [] speed tv = Inr []"
| "dv_lost i (dv_exp # rest) speed tv =
     (if i < length speed then
        (case dv_lost (Suc i) rest speed tv of
           Inl e \<Rightarrow> Inl e
         | Inr ys \<Rightarrow> Inr ((dv_exp - speed ! i + tv) # ys))
      else Inl IndexError)"

text \<open>The labels start with the Greek capital delta, two bytes in UTF-8.\<close>

definition Delta :: string where
  "Delta = [CHR 0xCE, CHR 0x94]"

definition delta_v :: "bool \<Rightarrow> table \<Rightarrow> step" where
  "delta_v v t =
     then_do ([subplot v 6], None)
       (with_col t ''TimeSinceMark'' (\<lambda>time.
        with_col t ''DeltaVExpended'' (\<lambda>dv_expended.
          then_do ([Plot time dv_expended (Some (Delta @ ''v Expended''))], None)
            (with_col t ''SpeedOrbital'' (\<lambda>speed.
               (case tan_vel speed of
                  Inl e \<Rightarrow> ([], Some e)
                | Inr tv \<Rightarrow>
                    (case dv_lost 0 dv_expended speed tv of
                       Inl e \<Rightarrow> ([], Some e)
                     | Inr lost \<Rightarrow>
                         ([Plot time lost (Some (Delta @ ''v Lost'')),
                           Title ''Delta-v Expenditure'',
                           XLabel ''MET (s)'',
                           YLabel (Delta @ ''v (m/s)''),
                           Legend ''upper left'',
                           Grid], None))))))))"

text \<open>The body of the \<^verbatim>\<open>try\<close> block.\<close>

definition render :: "bool \<Rightarrow> table \<Rightarrow> step" where
  "render v t =
     then_do (launch_profile v t)
    (then_do (acceleration v t)
    (then_do (orbital_velocity v t)
    (then_do (dynamic_pressure v t)
       (if v then then_do (angle_of_attack v t) (delta_v v t) else ([], None)))))"

section \<open>The whole run (lines 56 to 153)\<close>

definition dquote :: string where
  "dquote = [CHR 0x22]"

definition usage_error :: "string \<Rightarrow> event list" where
  "usage_error prog =
     [PrintUsage Stderr,
      Print Stderr (prog @ '': error: argument --no-view: requires argument --out'')]"

definition banner :: "args \<Rightarrow> event list" where
  "banner a =
     [Print Stdout ''KSP Telemetry Grapher v1.2.1'',
      Print Stdout (''Loading Mechjeb telemetry file '' @ dquote @ telemetry_name a @ dquote)]"

text \<open>\<^verbatim>\<open>if args.title:\<close> is false for \<^verbatim>\<open>None\<close> and for the empty string.\<close>

definition figure :: "args \<Rightarrow> event list" where
  "figure a =
     [if verbose a then Figure 14 6 else Figure 10 6] @
     (case title a of
        None \<Rightarrow> []
      | Some s \<Rightarrow> if s = [] then [] else [Suptitle s 14])"

definition save :: "args \<Rightarrow> event list" where
  "save a =
     (case out a of
        None \<Rightarrow> []
      | Some f \<Rightarrow>
          [Print Stdout (''Saving graph to '' @ dquote @ f @ dquote), Savefig f, CloseOut f])"

definition view :: "args \<Rightarrow> event list" where
  "view a = (if \<not> no_view a then [Print Stdout ''Opening preview'', Show] else [])"

text \<open>
  \<open>prog\<close> is \<^verbatim>\<open>os.path.basename(__file__)\<close>. Only \<^verbatim>\<open>KeyError\<close> is handled, and
  only around the rendering.
\<close>

definition run :: "string \<Rightarrow> (string \<Rightarrow> real option) \<Rightarrow> args \<Rightarrow> event list \<times> outcome" where
  "run prog to_float a =
     (if no_view a \<and> out a = None then (usage_error prog, Exit 2)
      else
        (case load to_float (telemetry_rows a) of
           Inl e \<Rightarrow> (banner a, Uncaught e)
         | Inr t \<Rightarrow>
             (case render (verbose a) t of
                (es, Some KeyError) \<Rightarrow>
                  (banner a @ [CloseTelemetry] @ figure a @ es @
                   [Print Stdout ''Error: could not find correct data entries in the file passed!''],
                   Exit 1)
              | (es, Some e) \<Rightarrow> (banner a @ [CloseTelemetry] @ figure a @ es, Uncaught e)
              | (es, None) \<Rightarrow>
                  (banner a @ [CloseTelemetry] @ figure a @ es @ [SubplotsAdjust 0.5 0.3] @
                   save a @ view a @ [Print Stdout ''Done''],
                   Exit 0))))"

text \<open>The status the interpreter exits with: 1 after an uncaught exception.\<close>

fun exit_status :: "outcome \<Rightarrow> nat" where
  "exit_status (Exit n) = n"
| "exit_status (Uncaught e) = 1"

section \<open>Auxiliary notions\<close>

text \<open>The keys that the \<^verbatim>\<open>try\<close> block reads from \<^verbatim>\<open>telemetry_data\<close>.\<close>

definition required_columns :: "bool \<Rightarrow> string list" where
  "required_columns v =
     [''DownRange'', ''AltitudeASL'', ''TimeSinceMark'', ''Acceleration'', ''SpeedOrbital'', ''Q''] @
     (if v then [''AoA'', ''DeltaVExpended''] else [])"

text \<open>The events that the charts themselves produce.\<close>

fun chart_event :: "event \<Rightarrow> bool" where
  "chart_event (Subplot r c n) = True"
| "chart_event (Plot xs ys l) = True"
| "chart_event (Title s) = True"
| "chart_event (XLabel s) = True"
| "chart_event (YLabel s) = True"
| "chart_event Grid = True"
| "chart_event (Legend s) = True"
| "chart_event ev = False"

text \<open>
  A small flight log for concrete runs: the eight columns that the charts read and four
  samples, with a cell parser that knows exactly the cells of this log.
\<close>

definition example_float :: "string \<Rightarrow> real option" where
  "example_float =
     map_of [(''0'', 0), (''1'', 1), (''2'', 2), (''3'', 3), (''4'', 4), (''5'', 5),
       (''7'', 7), (''9'', 9), (''90'', 90), (''100'', 100), (''200'', 200), (''250'', 250),
       (''300'', 300), (''400'', 400), (''600'', 600), (''1000'', 1000), (''2000'', 2000),
       (''3000'', 3000), (''5000'', 5000), (''6000'', 6000), (''9000'', 9000)]"

definition example_headers :: "string list" where
  "example_headers =
     [''DownRange'', ''AltitudeASL'', ''TimeSinceMark'', ''Acceleration'', ''SpeedOrbital'',
      ''Q'', ''AoA'', ''DeltaVExpended'']"

definition example_lines :: "string list list" where
  "example_lines =
     [[''0'', ''0'', ''0'', ''1'', ''200'', ''0'', ''90'', ''0''],
      [''1000'', ''2000'', ''1'', ''2'', ''250'', ''5'', ''4'', ''100''],
      [''3000'', ''5000'', ''2'', ''2'', ''400'', ''9'', ''3'', ''300''],
      [''6000'', ''9000'', ''3'', ''3'', ''600'', ''7'', ''2'', ''600'']]"

definition example_table :: table where
  "example_table =
     [''DownRange'' \<mapsto> [0, 1000, 3000, 6000],
      ''AltitudeASL'' \<mapsto> [0, 2000, 5000, 9000],
      ''TimeSinceMark'' \<mapsto> [0, 1, 2, 3],
      ''Acceleration'' \<mapsto> [1, 2, 2, 3],
      ''SpeedOrbital'' \<mapsto> [200, 250, 400, 600],
      ''Q'' \<mapsto> [0, 5, 9, 7],
      ''AoA'' \<mapsto> [90, 4, 3, 2],
      ''DeltaVExpended'' \<mapsto> [0, 100, 300, 600]]"

definition example_args :: args where
  "example_args =
     \<lparr>telemetry_name = ''flight.csv'', telemetry_rows = example_headers # example_lines,
      title = None, verbose = True, out = Some ''result.png'', no_view = False\<rparr>"



section \<open>Properties of the loader\<close>

lemma parse_line_Inr:
  "parse_line to_float line = Inr xs \<longleftrightarrow> map to_float line = map Some xs"
proof (induction line arbitrary: xs)
  case Nil
  show ?case by auto
next
  case (Cons val rest)
  show ?case
  proof (cases "to_float val")
    case None
    then show ?thesis by (auto simp: map_eq_Cons_conv)
  next
    case (Some x)
    show ?thesis
    proof (cases "parse_line to_float rest")
      case (Inl e)
      with Cons[of "tl xs"] Some show ?thesis by (cases xs) auto
    next
      case (Inr ys)
      with Cons Some show ?thesis by (cases xs) auto
    qed
  qed
qed

lemma parse_line_Inl: "parse_line to_float line = Inl e \<Longrightarrow> e = ValueError"
  by (induction line arbitrary: e) (auto split: option.splits sum.splits)

lemma parse_lines_Inr:
  "parse_lines to_float lines = Inr raw \<longleftrightarrow> map (map to_float) lines = map (map Some) raw"
proof (induction lines arbitrary: raw)
  case Nil
  show ?case by auto
next
  case (Cons line rest)
  show ?case
  proof (cases "parse_line to_float line")
    case (Inl e)
    then have "\<And>r. map to_float line \<noteq> map Some r"
      using parse_line_Inr[of to_float line] by auto
    with Inl show ?thesis by (cases raw) auto
  next
    case l: (Inr r)
    then have r: "map to_float line = map Some r" by (simp add: parse_line_Inr)
    have inj: "\<And>r'. map Some r = map Some r' \<longleftrightarrow> r = r'"
      by (simp add: inj_map_eq_map)
    show ?thesis
    proof (cases "parse_lines to_float rest")
      case (Inl e)
      then have "\<And>rs. map (map to_float) rest \<noteq> map (map Some) rs"
        using Cons by auto
      with Inl l show ?thesis by (cases raw) auto
    next
      case (Inr rs)
      with Cons l r inj show ?thesis by (cases raw) auto
    qed
  qed
qed

lemma parse_lines_Inl: "parse_lines to_float lines = Inl e \<Longrightarrow> e = ValueError"
  by (induction lines arbitrary: e) (auto split: sum.splits dest: parse_line_Inl)

lemma parse_lines_all_parse:
  assumes "parse_lines to_float lines = Inr raw" "line \<in> set lines" "cell \<in> set line"
  shows "to_float cell \<noteq> None"
proof -
  from assms(1) have eq: "map (map to_float) lines = map (map Some) raw"
    by (simp add: parse_lines_Inr)
  from assms(2) obtain n where n: "n < length lines" "lines ! n = line"
    by (auto simp: in_set_conv_nth)
  from eq have "length lines = length raw" by (metis length_map)
  with eq n have "map to_float line = map Some (raw ! n)"
    by (metis nth_map)
  then have "to_float ` set line = Some ` set (raw ! n)" by (metis set_map)
  with assms(3) show ?thesis by auto
qed

lemma parse_lines_fails:
  assumes "line \<in> set lines" "cell \<in> set line" "to_float cell = None"
  shows "parse_lines to_float lines = Inl ValueError"
proof (cases "parse_lines to_float lines")
  case (Inl e)
  then show ?thesis by (simp add: parse_lines_Inl)
next
  case (Inr raw)
  with assms parse_lines_all_parse[OF Inr assms(1,2)] show ?thesis by simp
qed

lemma parse_lines_ok:
  assumes "\<forall>line \<in> set lines. \<forall>cell \<in> set line. to_float cell \<noteq> None"
  shows "parse_lines to_float lines = Inr (map (map (\<lambda>cell. the (to_float cell))) lines)"
proof -
  have "map (map to_float) lines = map (map Some) (map (map (\<lambda>cell. the (to_float cell))) lines)"
    using assms by (auto simp: comp_def)
  then show ?thesis by (simp only: parse_lines_Inr)
qed

lemma column_ok:
  "\<forall>row \<in> set raw. idx < length row \<Longrightarrow> column idx raw = Inr (map (\<lambda>row. row ! idx) raw)"
  by (induction raw) auto

lemma column_InrD:
  "column idx raw = Inr xs \<Longrightarrow> (\<forall>row \<in> set raw. idx < length row) \<and> xs = map (\<lambda>row. row ! idx) raw"
  by (induction raw arbitrary: xs) (auto split: sum.splits if_splits)

lemma column_Inr:
  "column idx raw = Inr xs \<longleftrightarrow> (\<forall>row \<in> set raw. idx < length row) \<and> xs = map (\<lambda>row. row ! idx) raw"
  using column_ok[of raw idx] column_InrD[of idx raw xs] by auto

lemma column_Inl: "column idx raw = Inl e \<Longrightarrow> e = IndexError"
  by (induction raw arbitrary: e) (auto split: sum.splits if_splits)

lemma build_table_other:
  "build_table idx hs raw t = Inr t' \<Longrightarrow> k \<notin> set hs \<Longrightarrow> t' k = t k"
  by (induction hs arbitrary: idx t) (auto split: sum.splits)

lemma build_table_dom:
  "build_table idx hs raw t = Inr t' \<Longrightarrow> dom t' = dom t \<union> set hs"
  by (induction hs arbitrary: idx t) (auto split: sum.splits)

lemma build_table_nth:
  "build_table idx hs raw t = Inr t' \<Longrightarrow> j < length hs \<Longrightarrow> hs ! j \<notin> set (drop (Suc j) hs) \<Longrightarrow>
   t' (hs ! j) = Some (map (\<lambda>row. row ! (idx + j)) raw)"
proof (induction hs arbitrary: idx t j)
  case Nil
  then show ?case by simp
next
  case (Cons col rest)
  from Cons.prems(1) obtain xs where
    xs: "column idx raw = Inr xs" and
    bt: "build_table (Suc idx) rest raw (t(col \<mapsto> xs)) = Inr t'"
    by (auto split: sum.splits)
  show ?case
  proof (cases j)
    case 0
    with Cons.prems(3) have "col \<notin> set rest" by simp
    from build_table_other[OF bt this] xs 0 show ?thesis
      by (simp add: column_Inr)
  next
    case (Suc j')
    with Cons.prems Cons.IH[OF bt, of j'] show ?thesis by simp
  qed
qed

lemma build_table_length:
  "build_table idx hs raw t = Inr t' \<Longrightarrow> (\<And>k xs. t k = Some xs \<Longrightarrow> length xs = length raw) \<Longrightarrow>
   t' k = Some xs \<Longrightarrow> length xs = length raw"
proof (induction hs arbitrary: idx t)
  case Nil
  then show ?case by simp
next
  case (Cons col rest)
  from Cons.prems(1) obtain ys where
    ys: "column idx raw = Inr ys" and
    bt: "build_table (Suc idx) rest raw (t(col \<mapsto> ys)) = Inr t'"
    by (auto split: sum.splits)
  from ys have "length ys = length raw" by (simp add: column_Inr)
  with Cons.prems(2) have "\<And>k xs. (t(col \<mapsto> ys)) k = Some xs \<Longrightarrow> length xs = length raw"
    by (auto split: if_splits)
  from Cons.IH[OF bt this Cons.prems(3)] show ?case .
qed

lemma build_table_ok:
  "(\<forall>row \<in> set raw. idx + length hs \<le> length row) \<Longrightarrow> \<exists>t'. build_table idx hs raw t = Inr t'"
proof (induction hs arbitrary: idx t)
  case Nil
  then show ?case by simp
next
  case (Cons col rest)
  then have "\<forall>row \<in> set raw. idx < length row" by auto
  then have c: "column idx raw = Inr (map (\<lambda>row. row ! idx) raw)" by (simp add: column_Inr)
  from Cons.prems have "\<forall>row \<in> set raw. Suc idx + length rest \<le> length row" by auto
  from Cons.IH[OF this] c show ?case by simp
qed

lemma build_table_Inl: "build_table idx hs raw t = Inl e \<Longrightarrow> e = IndexError"
  by (induction hs arbitrary: idx t) (auto split: sum.splits dest: column_Inl)

lemma load_length:
  assumes "load to_float (headers # lines) = Inr t" "t k = Some xs"
  shows "length xs = length lines"
proof -
  from assms(1) obtain raw where
    raw: "parse_lines to_float lines = Inr raw" and
    bt: "build_table 0 headers raw Map.empty = Inr t"
    by (auto simp: load_def split: sum.splits)
  from raw have "map (map to_float) lines = map (map Some) raw" by (simp add: parse_lines_Inr)
  then have "length lines = length raw" by (metis length_map)
  moreover have "length xs = length raw"
    by (rule build_table_length[OF bt _ assms(2)]) simp
  ultimately show ?thesis by simp
qed


lemma snd_then_do:
  "snd (then_do s1 s2) = (case snd s1 of Some e \<Rightarrow> Some e | None \<Rightarrow> snd s2)"
  by (cases s1; cases s2; cases "snd s1") auto

lemma fst_then_do:
  "fst (then_do s1 s2) = (case snd s1 of Some e \<Rightarrow> fst s1 | None \<Rightarrow> fst s1 @ fst s2)"
  by (cases s1; cases s2; cases "snd s1") auto

lemma dv_lost_ok:
  "i + length dv_expended \<le> length speed \<Longrightarrow>
   dv_lost i dv_expended speed tv =
     Inr (map (\<lambda>j. dv_expended ! j - speed ! (i + j) + tv) [0..<length dv_expended])"
proof (induction dv_expended arbitrary: i)
  case Nil
  show ?case by simp
next
  case (Cons dv_exp rest)
  from Cons.prems have "Suc i + length rest \<le> length speed" and "i < length speed" by auto
  with Cons.IH[of "Suc i"] show ?case
    by (simp add: map_upt_Suc del: upt_Suc)
qed


lemma acceleration_ok:
  "t ''TimeSinceMark'' = Some time \<Longrightarrow> t ''Acceleration'' = Some acc \<Longrightarrow>
   acceleration v t =
     ([subplot v 2, Plot time acc None, Title ''Acceleration'',
       XLabel ''MET (s)'', YLabel ''Acceleration (g)'', Grid], None)"
  by (simp add: acceleration_def with_col_def)

lemma orbital_velocity_ok:
  "t ''TimeSinceMark'' = Some time \<Longrightarrow> t ''SpeedOrbital'' = Some speed \<Longrightarrow>
   orbital_velocity v t =
     ([subplot v 3, Plot time speed None, Title ''Orbital Velocity'',
       XLabel ''MET (s)'', YLabel ''Orbital velocity (m/s)'', Grid], None)"
  by (simp add: orbital_velocity_def with_col_def)


lemma angle_of_attack_ok:
  "t ''TimeSinceMark'' = Some time \<Longrightarrow> t ''AoA'' = Some aoa \<Longrightarrow>
   angle_of_attack v t =
     ([subplot v 5, Plot (drop 3 time) (drop 3 aoa) None, Title ''Angle of Attack'',
       XLabel ''MET (s)'', YLabel ''AoA (deg)'', Grid], None)"
  by (simp add: angle_of_attack_def with_col_def)

lemma delta_v_ok:
  assumes "t ''TimeSinceMark'' = Some time" "t ''DeltaVExpended'' = Some dv_expended"
    "t ''SpeedOrbital'' = Some speed" "speed \<noteq> []" "length dv_expended \<le> length speed"
  shows "delta_v v t =
     ([subplot v 6, Plot time dv_expended (Some (Delta @ ''v Expended'')),
       Plot time (map (\<lambda>i. dv_expended ! i - speed ! i + speed ! 0) [0..<length dv_expended])
         (Some (Delta @ ''v Lost'')),
       Title ''Delta-v Expenditure'', XLabel ''MET (s)'', YLabel (Delta @ ''v (m/s)''),
       Legend ''upper left'', Grid], None)"
proof -
  from assms(4) have tv: "tan_vel speed = Inr (speed ! 0)"
    by (cases speed) (auto simp: tan_vel_def)
  from assms(5) have "dv_lost 0 dv_expended speed (speed ! 0) =
      Inr (map (\<lambda>i. dv_expended ! i - speed ! i + speed ! 0) [0..<length dv_expended])"
    using dv_lost_ok[of 0 dv_expended speed "speed ! 0"] by simp
  with assms(1-3) tv show ?thesis
    by (simp add: delta_v_def with_col_def)
qed

lemma delta_v_empty:
  assumes "t ''TimeSinceMark'' = Some time" "t ''DeltaVExpended'' = Some dv_expended"
    "t ''SpeedOrbital'' = Some []"
  shows "delta_v v t =
     ([subplot v 6, Plot time dv_expended (Some (Delta @ ''v Expended''))], Some IndexError)"
  using assms by (simp add: delta_v_def with_col_def tan_vel_def)

lemma launch_profile_snd:
  "snd (launch_profile v t) =
     (if t ''DownRange'' = None \<or> t ''AltitudeASL'' = None then Some KeyError else None)"
  by (simp add: launch_profile_def with_col_def split: option.splits)

lemma acceleration_snd:
  "snd (acceleration v t) =
     (if t ''TimeSinceMark'' = None \<or> t ''Acceleration'' = None then Some KeyError else None)"
  by (simp add: acceleration_def with_col_def split: option.splits)

lemma orbital_velocity_snd:
  "snd (orbital_velocity v t) =
     (if t ''TimeSinceMark'' = None \<or> t ''SpeedOrbital'' = None then Some KeyError else None)"
  by (simp add: orbital_velocity_def with_col_def split: option.splits)

lemma dynamic_pressure_snd:
  "snd (dynamic_pressure v t) =
     (if t ''AltitudeASL'' = None \<or> t ''Q'' = None then Some KeyError else None)"
  by (simp add: dynamic_pressure_def with_col_def split: option.splits)

lemma angle_of_attack_snd:
  "snd (angle_of_attack v t) =
     (if t ''TimeSinceMark'' = None \<or> t ''AoA'' = None then Some KeyError else None)"
  by (simp add: angle_of_attack_def with_col_def split: option.splits)

lemma delta_v_KeyError:
  "t ''DeltaVExpended'' = None \<Longrightarrow> t ''TimeSinceMark'' \<noteq> None \<Longrightarrow> snd (delta_v v t) = Some KeyError"
  by (auto simp: delta_v_def with_col_def split: option.splits)

lemma render_KeyError:
  assumes "k \<in> set (required_columns v)" "t k = None"
  shows "snd (render v t) = Some KeyError"
proof (cases "t ''DownRange'' = None \<or> t ''AltitudeASL'' = None \<or> t ''TimeSinceMark'' = None \<or>
    t ''Acceleration'' = None \<or> t ''SpeedOrbital'' = None \<or> t ''Q'' = None")
  case True
  then show ?thesis
    by (auto simp: render_def snd_then_do launch_profile_snd acceleration_snd
        orbital_velocity_snd dynamic_pressure_snd)
next
  case False
  with assms have v: "v" and k: "t ''AoA'' = None \<or> t ''DeltaVExpended'' = None"
    by (auto simp: required_columns_def split: if_splits)
  from False have "t ''TimeSinceMark'' \<noteq> None" by simp
  with False v k delta_v_KeyError[of t v] show ?thesis
    by (auto simp: render_def snd_then_do launch_profile_snd acceleration_snd
        orbital_velocity_snd dynamic_pressure_snd angle_of_attack_snd)
qed

section \<open>Properties of the trace\<close>

lemma then_do_all:
  "list_all P (fst s1) \<Longrightarrow> list_all P (fst s2) \<Longrightarrow> list_all P (fst (then_do s1 s2))"
  by (cases s1; cases s2; cases "snd s1") auto

lemma launch_profile_events: "list_all chart_event (fst (launch_profile v t))"
  by (simp add: launch_profile_def with_col_def subplot_def arrange_subplots_def
      split: option.splits)

lemma acceleration_events: "list_all chart_event (fst (acceleration v t))"
  by (simp add: acceleration_def with_col_def subplot_def arrange_subplots_def
      split: option.splits)

lemma orbital_velocity_events: "list_all chart_event (fst (orbital_velocity v t))"
  by (simp add: orbital_velocity_def with_col_def subplot_def arrange_subplots_def
      split: option.splits)

lemma dynamic_pressure_events: "list_all chart_event (fst (dynamic_pressure v t))"
  by (simp add: dynamic_pressure_def with_col_def subplot_def arrange_subplots_def
      split: option.splits)

lemma angle_of_attack_events: "list_all chart_event (fst (angle_of_attack v t))"
  by (simp add: angle_of_attack_def with_col_def subplot_def arrange_subplots_def
      split: option.splits)

lemma delta_v_events: "list_all chart_event (fst (delta_v v t))"
  by (simp add: delta_v_def with_col_def subplot_def arrange_subplots_def
      split: option.splits sum.splits)

lemma render_events: "list_all chart_event (fst (render v t))"
  unfolding render_def
  by (intro then_do_all launch_profile_events acceleration_events orbital_velocity_events
      dynamic_pressure_events) (simp add: then_do_all angle_of_attack_events delta_v_events)

lemma render_chart_event: "render v t = (es, r) \<Longrightarrow> ev \<in> set es \<Longrightarrow> chart_event ev"
  using render_events[of v t] by (simp add: list_all_iff)

lemma banner_events: "ev \<in> set (banner a) \<Longrightarrow> \<exists>s. ev = Print Stdout s"
  by (auto simp: banner_def)

lemma figure_events: "ev \<in> set (figure a) \<Longrightarrow> (\<exists>w h. ev = Figure w h) \<or> (\<exists>s n. ev = Suptitle s n)"
  by (auto simp: figure_def split: option.splits if_splits)

lemma save_events:
  "ev \<in> set (save a) \<Longrightarrow> (\<exists>s. ev = Print Stdout s) \<or> (\<exists>f. ev = Savefig f) \<or> (\<exists>f. ev = CloseOut f)"
  by (auto simp: save_def split: option.splits)

lemma view_events: "ev \<in> set (view a) \<Longrightarrow> (\<exists>s. ev = Print Stdout s) \<or> ev = Show"
  by (auto simp: view_def split: if_splits)

lemma title_irrelevant:
  "banner (a\<lparr>title := x\<rparr>) = banner a"
  "save (a\<lparr>title := x\<rparr>) = save a"
  "view (a\<lparr>title := x\<rparr>) = view a"
  by (simp_all add: banner_def save_def view_def)

lemma figure_empty_title: "figure (a\<lparr>title := Some ''''\<rparr>) = figure (a\<lparr>title := None\<rparr>)"
  by (simp add: figure_def)

lemma figure_no_title: "Suptitle s n \<notin> set (figure (a\<lparr>title := None\<rparr>))"
  by (simp add: figure_def)

lemma render_quiet:
  assumes "render v t = (es, r)"
  shows "Show \<notin> set es" and "Savefig f \<notin> set es" and "CloseOut f \<notin> set es"
    and "Print st s \<notin> set es" and "Suptitle s n \<notin> set es"
  using render_chart_event[OF assms] by fastforce+

lemma header_only_table:
  assumes "load to_float [headers] = Inr t" and "k \<in> set headers"
  shows "t k = Some []"
proof -
  from assms(1) have "build_table 0 headers [] Map.empty = Inr t"
    by (simp add: load_def)
  from build_table_dom[OF this] assms(2) obtain xs where xs: "t k = Some xs" by auto
  from load_length[OF assms(1) xs] xs show ?thesis by simp
qed

lemma header_only_loads: "\<exists>t. load to_float [headers] = Inr t"
  using build_table_ok[of "[]" 0 headers Map.empty] by (simp add: load_def)

lemma render_verbose_empty:
  assumes "t ''DownRange'' = Some []" "t ''AltitudeASL'' = Some []" "t ''TimeSinceMark'' = Some []"
    "t ''Acceleration'' = Some []" "t ''SpeedOrbital'' = Some []" "t ''Q'' = Some []"
    "t ''AoA'' = Some []" "t ''DeltaVExpended'' = Some []"
  shows "snd (render True t) = Some IndexError"
  using assms
  by (simp add: render_def snd_then_do launch_profile_snd acceleration_snd orbital_velocity_snd
      dynamic_pressure_snd angle_of_attack_snd delta_v_empty)


lemma render_ok:
  assumes "t ''DownRange'' \<noteq> None" "t ''AltitudeASL'' \<noteq> None" "t ''TimeSinceMark'' \<noteq> None"
    "t ''Acceleration'' \<noteq> None" "t ''SpeedOrbital'' = Some speed" "t ''Q'' \<noteq> None"
    and "v \<Longrightarrow> t ''AoA'' \<noteq> None"
    and "v \<Longrightarrow> t ''DeltaVExpended'' = Some dv_expended"
    and "v \<Longrightarrow> speed \<noteq> []" and "v \<Longrightarrow> length dv_expended \<le> length speed"
  shows "snd (render v t) = None"
proof (cases v)
  case False
  with assms(1-6) show ?thesis
    by (simp add: render_def snd_then_do launch_profile_snd acceleration_snd
        orbital_velocity_snd dynamic_pressure_snd)
next
  case True
  from assms(3) obtain time where time: "t ''TimeSinceMark'' = Some time" by auto
  from delta_v_ok[OF time assms(8)[OF True] assms(5) assms(9)[OF True] assms(10)[OF True], of v]
  have "snd (delta_v v t) = None" by simp
  with True assms(1-7) show ?thesis
    by (simp add: render_def snd_then_do launch_profile_snd acceleration_snd
        orbital_velocity_snd dynamic_pressure_snd angle_of_attack_snd)
qed

lemma missing_column_run:
  assumes "\<not> (no_view a \<and> out a = None)" and "load to_float (telemetry_rows a) = Inr t"
    and "k \<in> set (required_columns (verbose a))" and "t k = None"
  shows "\<exists>es. run prog to_float a =
       (banner a @ [CloseTelemetry] @ figure a @ es @
        [Print Stdout ''Error: could not find correct data entries in the file passed!''],
        Exit 1) \<and> list_all chart_event es"
proof -
  from render_KeyError[of k "verbose a" t] assms(3,4) obtain es where
    es: "render (verbose a) t = (es, Some KeyError)"
    by (cases "render (verbose a) t") auto
  have "list_all chart_event es"
    using render_events[of "verbose a" t] es by simp
  with assms(1,2) es show ?thesis by (auto simp: run_def)
qed

section \<open>A well-formed log is rendered\<close>

text \<open>
  When every data row has one parsable cell per header, the columns that the mode reads
  are among the headers and, in verbose mode, there is at least one sample, the run ends
  with exit code 0.
\<close>

lemma load_wellformed:
  assumes "\<forall>line \<in> set lines. length line = length headers \<and> (\<forall>cell \<in> set line. to_float cell \<noteq> None)"
  shows "\<exists>t. load to_float (headers # lines) = Inr t \<and> dom t = set headers"
proof -
  have parse: "parse_lines to_float lines = Inr (map (map (\<lambda>cell. the (to_float cell))) lines)"
    using assms by (intro parse_lines_ok) blast
  have "\<forall>row \<in> set (map (map (\<lambda>cell. the (to_float cell))) lines). 0 + length headers \<le> length row"
    using assms by auto
  from build_table_ok[OF this] obtain t where
    bt: "build_table 0 headers (map (map (\<lambda>cell. the (to_float cell))) lines) Map.empty = Inr t"
    by blast
  with parse have "load to_float (headers # lines) = Inr t" by (simp add: load_def)
  moreover have "dom t = set headers" using build_table_dom[OF bt] by simp
  ultimately show ?thesis by blast
qed

lemma run_wellformed:
  assumes args: "\<not> (no_view a \<and> out a = None)"
    and rows: "telemetry_rows a = headers # lines"
    and cells: "\<forall>line \<in> set lines. length line = length headers \<and> (\<forall>cell \<in> set line. to_float cell \<noteq> None)"
    and cols: "set (required_columns (verbose a)) \<subseteq> set headers"
    and samples: "verbose a \<Longrightarrow> lines \<noteq> []"
  shows "snd (run prog to_float a) = Exit 0"
proof -
  from load_wellformed[OF cells] obtain t where
    load: "load to_float (headers # lines) = Inr t" and dom: "dom t = set headers"
    by blast
  have present: "t k \<noteq> None" if "k \<in> set (required_columns (verbose a))" for k
    using that cols dom by auto
  then obtain speed where speed: "t ''SpeedOrbital'' = Some speed"
    by (force simp: required_columns_def)
  have len_speed: "length speed = length lines"
    using load_length[OF load speed] .
  have dv: "\<exists>dv_expended. t ''DeltaVExpended'' = Some dv_expended \<and>
      length dv_expended \<le> length speed" if "verbose a"
  proof -
    from present[of "''DeltaVExpended''"] that obtain dv_expended where
      d: "t ''DeltaVExpended'' = Some dv_expended"
      by (auto simp: required_columns_def)
    from load_length[OF load d] len_speed d show ?thesis by simp
  qed
  have "snd (render (verbose a) t) = None"
  proof (cases "verbose a")
    case False
    with present speed show ?thesis
      by (intro render_ok[where speed = speed]) (simp_all add: required_columns_def)
  next
    case True
    from dv[OF True] obtain dv_expended where
      d: "t ''DeltaVExpended'' = Some dv_expended" "length dv_expended \<le> length speed"
      by blast
    from samples[OF True] len_speed have "speed \<noteq> []" by auto
    with True present speed d show ?thesis
      by (intro render_ok[where speed = speed and dv_expended = dv_expended])
        (simp_all add: required_columns_def)
  qed
  then obtain es where "render (verbose a) t = (es, None)"
    by (cases "render (verbose a) t") auto
  with args rows load show ?thesis by (auto simp: run_def)
qed

section \<open>The example logs\<close>

lemma example_load: "load example_float (example_headers # example_lines) = Inr example_table"
  by (simp add: load_def example_float_def example_headers_def example_lines_def
      example_table_def)



section \<open>The claims\<close>

subsection \<open>C1: \<^verbatim>\<open>--no-view\<close> without \<^verbatim>\<open>--out\<close>\<close>

text \<open>
  C1. When \<^verbatim>\<open>--no-view\<close> is given and \<^verbatim>\<open>--out\<close> is not, the whole run consists of
  the usage line and the diagnostic on the error stream, and the exit code is 2. Nothing
  is printed on the output stream, so the message about loading the telemetry file does
  not appear, and the result does not depend on the content of the file: no data is loaded.
\<close>

theorem no_view_requires_out:
  assumes "no_view a" and "out a = None"
  shows "run prog to_float a =
      ([PrintUsage Stderr,
        Print Stderr (prog @ '': error: argument --no-view: requires argument --out'')],
       Exit 2) \<and>
     Print Stdout (''Loading Mechjeb telemetry file '' @ dquote @ telemetry_name a @ dquote)
       \<notin> set (fst (run prog to_float a))"
  using assms by (simp add: run_def usage_error_def)

theorem no_view_requires_out_witness:
  "no_view (example_args\<lparr>out := None, no_view := True\<rparr>) \<and>
   out (example_args\<lparr>out := None, no_view := True\<rparr>) = None \<and>
   run ''ksp-telemetry.py'' example_float (example_args\<lparr>out := None, no_view := True\<rparr>) =
     ([PrintUsage Stderr,
       Print Stderr ''ksp-telemetry.py: error: argument --no-view: requires argument --out''],
      Exit 2)"
  using no_view_requires_out[where a = "example_args\<lparr>out := None, no_view := True\<rparr>"
      and prog = "''ksp-telemetry.py''" and to_float = example_float]
  by simp

subsection \<open>C2: a missing column\<close>

text \<open>
  C2. A table that lacks a column required by the active mode makes the rendering raise
  \<^verbatim>\<open>KeyError\<close>, which is caught: the run ends with exit code 1 and nothing is saved or
  shown (lemma \<open>missing_column_run\<close> above, for every such table). The diagnostic,
  however, is printed with a plain \<^verbatim>\<open>print\<close>: it goes to the output stream, not to the
  error stream. The run below is the log without the column \<^verbatim>\<open>Q\<close>, in normal mode,
  with \<^verbatim>\<open>--out result.png --no-view\<close>.
\<close>

theorem missing_column_diagnostic_stream:
  "run ''ksp-telemetry.py'' example_float
     \<lparr>telemetry_name = ''flight.csv'',
      telemetry_rows =
        [[''DownRange'', ''AltitudeASL'', ''TimeSinceMark'', ''Acceleration'', ''SpeedOrbital''],
         [''1000'', ''2000'', ''1'', ''2'', ''250'']],
      title = None, verbose = False, out = Some ''result.png'', no_view = True\<rparr> =
   ([Print Stdout ''KSP Telemetry Grapher v1.2.1'',
     Print Stdout (''Loading Mechjeb telemetry file '' @ dquote @ ''flight.csv'' @ dquote),
     CloseTelemetry,
     Figure 10 6,
     Subplot 2 2 1, Plot [1] [2] None, Title ''Launch Profile'',
     XLabel ''Distance downrange (km)'', YLabel ''Altitude ASL (km)'', Grid,
     Subplot 2 2 2, Plot [1] [2] None, Title ''Acceleration'',
     XLabel ''MET (s)'', YLabel ''Acceleration (g)'', Grid,
     Subplot 2 2 3, Plot [1] [250] None, Title ''Orbital Velocity'',
     XLabel ''MET (s)'', YLabel ''Orbital velocity (m/s)'', Grid,
     Subplot 2 2 4,
     Print Stdout ''Error: could not find correct data entries in the file passed!''],
    Exit 1)"
  by (simp add: run_def load_def example_float_def render_def launch_profile_def
      acceleration_def orbital_velocity_def dynamic_pressure_def with_col_def subplot_def
      arrange_subplots_def to_km_def banner_def figure_def)

subsection \<open>C3: the columns of the loaded table\<close>

text \<open>
  C3, amended. On a header row followed by rows that have one parsable cell per header
  position, the loader returns a table whose keys are the header names. For each position
  \<open>idx\<close> whose header name does not occur again at a later position (so for every
  position when the names are pairwise distinct), the column stored under that name is
  the sequence of the \<open>idx\<close>-th cells of the data rows, in row order. Every column has as
  many items as there are data rows.
\<close>

theorem load_columns:
  assumes "\<forall>line \<in> set lines. length line = length headers \<and> (\<forall>cell \<in> set line. to_float cell \<noteq> None)"
  shows "\<exists>t. load to_float (headers # lines) = Inr t \<and>
     dom t = set headers \<and>
     (\<forall>idx < length headers. headers ! idx \<notin> set (drop (Suc idx) headers) \<longrightarrow>
        t (headers ! idx) = Some (map (\<lambda>line. the (to_float (line ! idx))) lines)) \<and>
     (distinct headers \<longrightarrow>
        (\<forall>idx < length headers.
           t (headers ! idx) = Some (map (\<lambda>line. the (to_float (line ! idx))) lines))) \<and>
     (\<forall>k xs. t k = Some xs \<longrightarrow> length xs = length lines)"
proof -
  define raw where "raw = map (map (\<lambda>cell. the (to_float cell))) lines"
  have parse: "parse_lines to_float lines = Inr raw"
    unfolding raw_def using assms by (intro parse_lines_ok) blast
  have "\<forall>row \<in> set raw. 0 + length headers \<le> length row"
    using assms by (auto simp: raw_def)
  from build_table_ok[OF this] obtain t where bt: "build_table 0 headers raw Map.empty = Inr t"
    by blast
  with parse have load: "load to_float (headers # lines) = Inr t"
    by (simp add: load_def)
  have dom: "dom t = set headers"
    using build_table_dom[OF bt] by simp
  have col: "t (headers ! idx) = Some (map (\<lambda>line. the (to_float (line ! idx))) lines)"
    if idx: "idx < length headers" and last: "headers ! idx \<notin> set (drop (Suc idx) headers)" for idx
  proof -
    have "map (\<lambda>row. row ! idx) raw = map (\<lambda>line. the (to_float (line ! idx))) lines"
      using assms idx by (simp add: raw_def)
    with build_table_nth[OF bt idx last] show ?thesis by simp
  qed
  have dist: "headers ! idx \<notin> set (drop (Suc idx) headers)"
    if "distinct headers" "idx < length headers" for idx
    using that by (auto simp: in_set_conv_nth distinct_conv_nth)
  have len: "\<forall>k xs. t k = Some xs \<longrightarrow> length xs = length lines"
    using load_length[OF load] by blast
  from load dom col dist len show ?thesis by blast
qed

theorem load_columns_witness:
  "list_all (\<lambda>line. length line = length example_headers \<and>
      list_all (\<lambda>cell. example_float cell \<noteq> None) line) example_lines \<and>
   load example_float (example_headers # example_lines) = Inr example_table \<and>
   example_headers ! 5 = ''Q'' \<and>
   example_table ''Q'' = Some [0, 5, 9, 7] \<and>
   map (\<lambda>line. the (example_float (line ! 5))) example_lines = [0, 5, 9, 7]"
proof -
  have h: "\<forall>line \<in> set example_lines. length line = length example_headers \<and>
      (\<forall>cell \<in> set line. example_float cell \<noteq> None)"
    by (simp add: example_lines_def example_headers_def example_float_def)
  have "map (\<lambda>line. the (example_float (line ! 5))) example_lines = [0, 5, 9, 7]"
    by (simp add: example_lines_def example_float_def)
  with load_columns[OF h] h example_load show ?thesis
    by (simp add: list_all_iff example_headers_def example_table_def)
qed

text \<open>
  As stated, for every position, the claim fails when a header name is repeated: the
  dictionary keeps the column of the last position only.
\<close>

theorem load_columns_counterexample:
  "load example_float [[''A'', ''A''], [''1'', ''2'']] = Inr [''A'' \<mapsto> [2]] \<and>
   [''A'', ''A''] ! 0 = ''A'' \<and>
   example_float ([''1'', ''2''] ! 0) = Some 1 \<and>
   [1] \<noteq> [2 :: real]"
  by (simp add: load_def example_float_def)

subsection \<open>C4: the delta-v lost series\<close>



subsection \<open>C5: trimming the angle of attack\<close>

text \<open>
  C5. In verbose mode the angle-of-attack chart plots \<open>TimeSinceMark\<close> and \<open>AoA\<close> with
  the first three samples of each removed, so that item \<open>i\<close> of each trimmed series is
  item \<open>i + 3\<close> of its column. On a table with \<open>N\<close> data rows both trimmed series have
  \<open>N - 3\<close> items when \<open>N > 3\<close>; when \<open>N \<le> 3\<close> the chart still draws, with two empty
  series.
\<close>

theorem aoa_trim:
  assumes "load to_float (headers # lines) = Inr t"
    and "t ''TimeSinceMark'' = Some time" and "t ''AoA'' = Some aoa"
  shows "angle_of_attack True t =
      ([Subplot 2 3 5, Plot (drop 3 time) (drop 3 aoa) None, Title ''Angle of Attack'',
        XLabel ''MET (s)'', YLabel ''AoA (deg)'', Grid], None) \<and>
     length (drop 3 time) = (if 3 < length lines then length lines - 3 else 0) \<and>
     length (drop 3 aoa) = (if 3 < length lines then length lines - 3 else 0) \<and>
     (\<forall>i. i + 3 < length lines \<longrightarrow>
        drop 3 time ! i = time ! (i + 3) \<and> drop 3 aoa ! i = aoa ! (i + 3)) \<and>
     (length lines \<le> 3 \<longrightarrow> drop 3 time = [] \<and> drop 3 aoa = [])"
proof -
  have len: "length time = length lines" "length aoa = length lines"
    using load_length[OF assms(1)] assms(2,3) by auto
  have "angle_of_attack True t =
      ([Subplot 2 3 5, Plot (drop 3 time) (drop 3 aoa) None, Title ''Angle of Attack'',
        XLabel ''MET (s)'', YLabel ''AoA (deg)'', Grid], None)"
    using angle_of_attack_ok[OF assms(2,3), of True]
    by (simp add: subplot_def arrange_subplots_def)
  with len show ?thesis by (simp add: add.commute)
qed

theorem aoa_trim_witness:
  "load example_float (example_headers # example_lines) = Inr example_table \<and>
   example_table ''TimeSinceMark'' = Some [0, 1, 2, 3] \<and>
   example_table ''AoA'' = Some [90, 4, 3, 2] \<and>
   angle_of_attack True example_table =
     ([Subplot 2 3 5, Plot [3] [2] None, Title ''Angle of Attack'',
       XLabel ''MET (s)'', YLabel ''AoA (deg)'', Grid], None) \<and>
   length (drop 3 [0, 1, 2, 3 :: real]) = length example_lines - 3"
proof -
  have t: "example_table ''TimeSinceMark'' = Some [0, 1, 2, 3]"
    and a: "example_table ''AoA'' = Some [90, 4, 3, 2]"
    by (simp_all add: example_table_def)
  from aoa_trim[OF example_load t a] example_load t a show ?thesis
    by (simp add: example_lines_def)
qed

subsection \<open>C6: the conversion to kilometres\<close>



subsection \<open>C7: a cell that is not a number\<close>

text \<open>
  C7. If any cell of any data row does not parse as a float (the empty cell included: every
  cell goes through the same parse), the loader raises \<^verbatim>\<open>ValueError\<close>. Nothing handles
  it: once the arguments have passed the check of C1 the run ends there, after the two
  opening messages, with the uncaught exception. In every case the exit status is not 0.
\<close>

theorem parse_error_is_fatal:
  assumes "telemetry_rows a = headers # lines" and "line \<in> set lines" and "cell \<in> set line"
    and "to_float cell = None"
  shows "load to_float (telemetry_rows a) = Inl ValueError \<and>
     exit_status (snd (run prog to_float a)) \<noteq> 0 \<and>
     (if no_view a \<and> out a = None then snd (run prog to_float a) = Exit 2
      else run prog to_float a = (banner a, Uncaught ValueError))"
proof -
  from assms have l: "load to_float (telemetry_rows a) = Inl ValueError"
    by (simp add: load_def parse_lines_fails)
  then show ?thesis by (simp add: run_def)
qed

theorem parse_error_is_fatal_witness:
  "telemetry_rows (example_args\<lparr>telemetry_rows := [example_headers, [''0'', '''']]\<rparr>) =
     example_headers # [[''0'', '''']] \<and>
   [''0'', ''''] \<in> set [[''0'', '''']] \<and> '''' \<in> set [''0'', ''''] \<and> example_float '''' = None \<and>
   run ''ksp-telemetry.py'' example_float
       (example_args\<lparr>telemetry_rows := [example_headers, [''0'', '''']]\<rparr>) =
     ([Print Stdout ''KSP Telemetry Grapher v1.2.1'',
       Print Stdout (''Loading Mechjeb telemetry file '' @ dquote @ ''flight.csv'' @ dquote)],
      Uncaught ValueError) \<and>
   exit_status (snd (run ''ksp-telemetry.py'' example_float
       (example_args\<lparr>telemetry_rows := [example_headers, [''0'', '''']]\<rparr>))) = 1"
proof -
  have h: "example_float '''' = None" by (simp add: example_float_def)
  from parse_error_is_fatal[where a = "example_args\<lparr>telemetry_rows := [example_headers, [''0'', '''']]\<rparr>"
      and headers = example_headers and lines = "[[''0'', '''']]" and line = "[''0'', '''']"
      and cell = "''''" and to_float = example_float and prog = "''ksp-telemetry.py''", OF _ _ _ h]
  show ?thesis using h by (simp add: example_args_def banner_def)
qed

subsection \<open>C8: saving and showing\<close>



subsection \<open>C9: verbose mode on a log without samples\<close>

text \<open>
  C9. In verbose mode, on a file that has only the header row, with all eight columns
  present, reading \<open>SpeedOrbital[0]\<close> raises \<^verbatim>\<open>IndexError\<close>. The handler for
  \<^verbatim>\<open>KeyError\<close> does not catch it: the run ends with the uncaught exception, without the
  diagnostic of C2, and nothing is saved or shown.
\<close>

theorem verbose_header_only_IndexError:
  assumes "verbose a" and "\<not> (no_view a \<and> out a = None)" and "telemetry_rows a = [headers]"
    and "{''DownRange'', ''AltitudeASL'', ''TimeSinceMark'', ''Acceleration'', ''SpeedOrbital'',
          ''Q'', ''AoA'', ''DeltaVExpended''} \<subseteq> set headers"
  shows "snd (run prog to_float a) = Uncaught IndexError \<and>
     Show \<notin> set (fst (run prog to_float a)) \<and>
     Savefig f \<notin> set (fst (run prog to_float a)) \<and>
     Print Stdout ''Error: could not find correct data entries in the file passed!''
       \<notin> set (fst (run prog to_float a))"
proof -
  obtain t where t: "load to_float [headers] = Inr t"
    using header_only_loads by blast
  have "snd (render True t) = Some IndexError"
    using assms(4) by (intro render_verbose_empty header_only_table[OF t]) auto
  then obtain es where es: "render True t = (es, Some IndexError)"
    by (cases "render True t") auto
  have run: "run prog to_float a = (banner a @ [CloseTelemetry] @ figure a @ es, Uncaught IndexError)"
    using assms(1-3) t es by (auto simp: run_def)
  have "Print Stdout ''Error: could not find correct data entries in the file passed!''
      \<notin> set (banner a)"
    by (simp add: banner_def)
  with run render_quiet[OF es] show ?thesis
    by (auto dest: banner_events figure_events)
qed

theorem verbose_header_only_IndexError_witness:
  "verbose (example_args\<lparr>telemetry_rows := [example_headers]\<rparr>) \<and>
   \<not> (no_view (example_args\<lparr>telemetry_rows := [example_headers]\<rparr>) \<and>
      out (example_args\<lparr>telemetry_rows := [example_headers]\<rparr>) = None) \<and>
   telemetry_rows (example_args\<lparr>telemetry_rows := [example_headers]\<rparr>) = [example_headers] \<and>
   {''DownRange'', ''AltitudeASL'', ''TimeSinceMark'', ''Acceleration'', ''SpeedOrbital'',
    ''Q'', ''AoA'', ''DeltaVExpended''} \<subseteq> set example_headers \<and>
   snd (run ''ksp-telemetry.py'' example_float (example_args\<lparr>telemetry_rows := [example_headers]\<rparr>)) =
     Uncaught IndexError"
  using verbose_header_only_IndexError[where a = "example_args\<lparr>telemetry_rows := [example_headers]\<rparr>"
      and headers = example_headers and to_float = example_float and prog = "''ksp-telemetry.py''"]
  by (simp add: example_args_def example_headers_def)

subsection \<open>C10: an empty title\<close>

text \<open>
  C10. A run with \<^verbatim>\<open>--title ""\<close> is the same run as one without \<^verbatim>\<open>--title\<close>: same
  trace, same outcome, and no figure title is drawn.
\<close>

theorem empty_title_as_omitted:
  "run prog to_float (a\<lparr>title := Some ''''\<rparr>) = run prog to_float (a\<lparr>title := None\<rparr>) \<and>
   Suptitle s n \<notin> set (fst (run prog to_float (a\<lparr>title := Some ''''\<rparr>)))"
proof -
  have eq: "run prog to_float (a\<lparr>title := Some ''''\<rparr>) = run prog to_float (a\<lparr>title := None\<rparr>)"
    by (simp add: run_def title_irrelevant figure_empty_title
        split: sum.splits prod.splits option.splits py_error.splits)
  have "Suptitle s n \<notin> set (fst (run prog to_float (a\<lparr>title := None\<rparr>)))"
    using figure_no_title[of s n a]
    by (auto simp: run_def usage_error_def title_irrelevant
        split: sum.splits prod.splits option.splits py_error.splits
        dest: render_chart_event banner_events save_events view_events)
  with eq show ?thesis by simp
qed

end
